theory Spec2Isabelle
  imports Main
begin

section \<open>JavaScript values, thrown values and HTTP exchanges\<close>

text \<open>
  The screens handle values that come out of \<^verbatim>\<open>response.json()\<close>: any JSON value.
  Reading a missing property gives \<^verbatim>\<open>undefined\<close>, so the value type has it as well.
  Numbers are kept abstract (type \<open>'n\<close>): the program never computes with them.
  Strings are byte lists; the program only tests them for emptiness, concatenates
  them and hands them on.
\<close>

datatype 'n jsval =
    JUndefined
  | JNull
  | JBool bool
  | JNum 'n
  | JStr string
  | JArr "'n jsval list"
  | JObj "(string \<times> 'n jsval) list"

text \<open>
  What a \<^verbatim>\<open>catch\<close> clause can tell about a thrown value:
  \<^verbatim>\<open>error instanceof Error\<close> holds and \<^verbatim>\<open>error.message\<close> is the string, or it
  does not hold.
\<close>

datatype thrown = JsError string | NonError

text \<open>
  The parts of the JavaScript engine and of the platform library that the source calls
  and that are not code of the repository:
  \<^item> \<open>numberFalsy\<close>: whether a number is \<open>+0\<close>, \<open>-0\<close> or \<open>NaN\<close>;
  \<^item> \<open>toStringOther\<close>: \<^verbatim>\<open>ToString\<close> on a value that is not a string (it can throw, for
    an object that shadows \<^verbatim>\<open>toString\<close>);
  \<^item> \<open>nullRead\<close>: the \<^verbatim>\<open>TypeError\<close> thrown when the named property is read off
    \<^verbatim>\<open>null\<close> or \<^verbatim>\<open>undefined\<close>;
  \<^item> \<open>encodeComponent\<close>: how \<^verbatim>\<open>URLSearchParams.toString()\<close> writes one value.
\<close>

record 'n engine =
  numberFalsy :: "'n \<Rightarrow> bool"
  toStringOther :: "'n jsval \<Rightarrow> thrown + string"
  nullRead :: "string \<Rightarrow> thrown"
  encodeComponent :: "string \<Rightarrow> string"

text \<open>\<^verbatim>\<open>ToBoolean\<close>: what \<^verbatim>\<open>!x\<close> and \<^verbatim>\<open>x || y\<close> test.\<close>

fun truthy :: "'n engine \<Rightarrow> 'n jsval \<Rightarrow> bool" where
  "truthy eng JUndefined = False"
| "truthy eng JNull = False"
| "truthy eng (JBool b) = b"
| "truthy eng (JNum n) = (\<not> numberFalsy eng n)"
| "truthy eng (JStr s) = (s \<noteq> [])"
| "truthy eng (JArr xs) = True"
| "truthy eng (JObj kvs) = True"

text \<open>\<^verbatim>\<open>ToString\<close>, as \<^verbatim>\<open>new Error(x)\<close> applies it to its argument.\<close>

fun toString :: "'n engine \<Rightarrow> 'n jsval \<Rightarrow> thrown + string" where
  "toString eng (JStr s) = Inr s"
| "toString eng v = toStringOther eng v"

text \<open>
  \<^verbatim>\<open>data.name\<close>: a \<^verbatim>\<open>TypeError\<close> on \<^verbatim>\<open>null\<close> and \<^verbatim>\<open>undefined\<close>; on an object
  parsed from JSON the value of the key (the last one, when the text repeats it) or
  \<^verbatim>\<open>undefined\<close>; on the other values \<^verbatim>\<open>undefined\<close>, since neither name the source
  reads (\<^verbatim>\<open>detail\<close>, \<^verbatim>\<open>access_token\<close>) is a property of a prototype.
\<close>

fun getProp :: "'n engine \<Rightarrow> 'n jsval \<Rightarrow> string \<Rightarrow> thrown + 'n jsval" where
  "getProp eng JUndefined name = Inl (nullRead eng name)"
| "getProp eng JNull name = Inl (nullRead eng name)"
| "getProp eng (JObj kvs) name =
     (case map_of (rev kvs) name of None \<Rightarrow> Inr JUndefined | Some v \<Rightarrow> Inr v)"
| "getProp eng v name = Inr JUndefined"

subsection \<open>Requests and responses of \<^verbatim>\<open>fetch\<close>\<close>

datatype http_method = GET | POST

record request =
  url :: string
  meth :: http_method
  headers :: "(string \<times> string) list"
  body :: "string option"

text \<open>
  A response carries its status and what \<^verbatim>\<open>await response.json()\<close> does on it: throw
  (the body is not JSON) or give the decoded value. \<^verbatim>\<open>response.ok\<close> is the Fetch
  API's test of the status.
\<close>

record 'n response =
  status :: nat
  json :: "thrown + 'n jsval"

definition ok :: "'n response \<Rightarrow> bool" where
  "ok r = (200 \<le> status r \<and> status r \<le> 299)"

text \<open>
  \<^verbatim>\<open>await fetch(...)\<close> either throws (connection refused, no route, the platform's
  time-out: the promise is rejected) or gives a response. The network is a function of
  the request: each screen action sends each request at most once.
\<close>

type_synonym 'n fetch = "request \<Rightarrow> thrown + 'n response"

section \<open>The auth store (\<^verbatim>\<open>useAuthStore\<close>)\<close>

text \<open>
  \<^verbatim>\<open>token: string | null\<close> by its TypeScript type; at run time the field holds whatever
  \<^verbatim>\<open>login\<close> is called with, and \<^verbatim>\<open>handleLogin\<close> calls it with a property of a decoded
  JSON value.
\<close>

record 'n AuthState =
  token :: "'n jsval"
  isAuthenticated :: bool

definition useAuthStore :: "'n AuthState" where
  "useAuthStore = \<lparr>token = JNull, isAuthenticated = False\<rparr>"

definition login :: "'n jsval \<Rightarrow> 'n AuthState \<Rightarrow> 'n AuthState" where
  "login t s = s\<lparr>token := t, isAuthenticated := True\<rparr>"

definition logout :: "'n AuthState \<Rightarrow> 'n AuthState" where
  "logout s = s\<lparr>token := JNull, isAuthenticated := False\<rparr>"

text \<open>Sequences of the two mutators, \<^verbatim>\<open>login\<close> called with a string.\<close>

datatype store_op = Login string | Logout

fun apply_op :: "store_op \<Rightarrow> 'n AuthState \<Rightarrow> 'n AuthState" where
  "apply_op (Login t) s = login (JStr t) s"
| "apply_op Logout s = logout s"

fun run_ops :: "store_op list \<Rightarrow> 'n AuthState \<Rightarrow> 'n AuthState" where
  "run_ops [] s = s"
| "run_ops (x # xs) s = run_ops xs (apply_op x s)"

text \<open>The token is a non-empty string.\<close>

fun token_nonempty :: "'n jsval \<Rightarrow> bool" where
  "token_nonempty (JStr t) = (t \<noteq> [])"
| "token_nonempty v = False"

definition session_invariant :: "'n AuthState \<Rightarrow> bool" where
  "session_invariant s = (isAuthenticated s = token_nonempty (token s))"

fun is_nonempty_login :: "store_op \<Rightarrow> bool" where
  "is_nonempty_login (Login t) = (t \<noteq> [])"
| "is_nonempty_login Logout = True"

section \<open>The candidate server list (\<^verbatim>\<open>getServerUrls\<close>)\<close>

text \<open>
  What \<^verbatim>\<open>getServerUrls\<close> reads: \<^verbatim>\<open>Platform.OS\<close> and the three variables imported from
  \<^verbatim>\<open>@env\<close>, each \<^verbatim>\<open>undefined\<close> (\<open>None\<close>) when the environment does not set it.
\<close>

record environment =
  platformOS :: string
  API_URL_EMULATOR :: "string option"
  API_URL_LOCAL :: "string option"
  API_URL_DEVICE :: "string option"

text \<open>\<^verbatim>\<open>v || d\<close> on a variable: \<^verbatim>\<open>undefined\<close> and the empty string are falsy.\<close>

fun orDefault :: "string option \<Rightarrow> string \<Rightarrow> string" where
  "orDefault None d = d"
| "orDefault (Some v) d = (if v = [] then d else v)"

text \<open>
  \<^verbatim>\<open>[...new Set(urls)]\<close>: the elements are added one by one, a \<^verbatim>\<open>Set\<close> keeps the order
  of insertion, and adding an element it already has changes nothing.
\<close>

definition setAdd :: "string list \<Rightarrow> string \<Rightarrow> string list" where
  "setAdd acc x = (if x \<in> set acc then acc else acc @ [x])"

definition newSet :: "string list \<Rightarrow> string list" where
  "newSet xs = foldl setAdd [] xs"

definition getServerUrls :: "environment \<Rightarrow> string list" where
  "getServerUrls env =
     (let urls = [];
          urls = (if platformOS env = ''android''
                  then urls @ [orDefault (API_URL_EMULATOR env) ''http://10.0.2.2:8000'']
                  else urls);
          urls = urls @ [orDefault (API_URL_LOCAL env) ''http://localhost:8000''];
          urls = urls @ [orDefault (API_URL_DEVICE env) ''http://127.0.0.1:8000'']
      in newSet urls)"

text \<open>
  The list as C8 words it: three sources on every platform, in priority order, each
  with its default, deduplicated.
\<close>

definition threeSources :: "environment \<Rightarrow> string list" where
  "threeSources env =
     [orDefault (API_URL_EMULATOR env) ''http://10.0.2.2:8000'',
      orDefault (API_URL_LOCAL env) ''http://localhost:8000'',
      orDefault (API_URL_DEVICE env) ''http://127.0.0.1:8000'']"

text \<open>The sources the code takes: the emulator address on Android only.\<close>

definition platformSources :: "environment \<Rightarrow> string list" where
  "platformSources env =
     (if platformOS env = ''android'' then threeSources env else tl (threeSources env))"

text \<open>
  Deduplication that keeps the first occurrence, written directly: the head stays, its
  repetitions further on are dropped, and so on for the rest.
\<close>

fun firstSeen :: "string list \<Rightarrow> string list" where
  "firstSeen [] = []"
| "firstSeen (x # xs) = x # firstSeen (filter (\<lambda>y. y \<noteq> x) xs)"

section \<open>The login screen and what it does to the world\<close>

text \<open>
  The state the two screens work on: the process-wide auth store, the
  \<^verbatim>\<open>useState\<close> cells of \<^verbatim>\<open>LoginScreen\<close> that the handlers read or set, and the
  effects in the order they happen (console output, requests sent, alerts shown,
  navigation, calls of the store's two mutators).
\<close>

datatype 'n logArg = LStr string | LVal "'n jsval" | LErr thrown | LNum nat

datatype 'n effect =
    ConsoleLog "'n logArg list"
  | ConsoleError "'n logArg list"
  | Fetch request
  | Alert string string
  | Navigate string
  | StoreLogin "'n jsval"
  | StoreLogout

record 'n app =
  store :: "'n AuthState"
  username :: string
  password :: string
  isLoading :: bool
  workingServerUrl :: "string option"
  effects :: "'n effect list"

definition emit :: "'n effect \<Rightarrow> 'n app \<Rightarrow> 'n app" where
  "emit e a = a\<lparr>effects := effects a @ [e]\<rparr>"

text \<open>The requests sent, in order.\<close>

fun requests :: "'n effect list \<Rightarrow> request list" where
  "requests [] = []"
| "requests (Fetch r # es) = r # requests es"
| "requests (e # es) = requests es"

text \<open>The alerts shown, in order, as (title, message).\<close>

fun alerts :: "'n effect list \<Rightarrow> (string \<times> string) list" where
  "alerts [] = []"
| "alerts (Alert t m # es) = (t, m) # alerts es"
| "alerts (e # es) = alerts es"

text \<open>The calls of the store's mutators, in order.\<close>

fun storeCalls :: "'n effect list \<Rightarrow> 'n effect list" where
  "storeCalls [] = []"
| "storeCalls (StoreLogin t # es) = StoreLogin t # storeCalls es"
| "storeCalls (StoreLogout # es) = StoreLogout # storeCalls es"
| "storeCalls (e # es) = storeCalls es"

text \<open>The screens navigated to, in order.\<close>

fun navigations :: "'n effect list \<Rightarrow> string list" where
  "navigations [] = []"
| "navigations (Navigate n # es) = n # navigations es"
| "navigations (e # es) = navigations es"

text \<open>How a block of statements ends: at its end, by \<^verbatim>\<open>return\<close>, or by a throw.\<close>

datatype completion = Normal | Returned | Threw thrown

section \<open>The endpoint resolver (\<^verbatim>\<open>findWorkingServer\<close>)\<close>

definition pingRequest :: "string \<Rightarrow> request" where
  "pingRequest u =
     \<lparr>url = u @ ''/ping'', meth = GET,
      headers = [(''Accept'', ''application/json'')], body = None\<rparr>"

text \<open>The \<^verbatim>\<open>try\<close> block of the loop, for one candidate.\<close>

definition probe :: "'n fetch \<Rightarrow> string \<Rightarrow> 'n app \<Rightarrow> completion \<times> 'n app" where
  "probe fetch u a =
     (let a = emit (ConsoleLog [LStr (''Testing connection to '' @ u @ ''/ping...'')]) a;
          a = emit (Fetch (pingRequest u)) a
      in case fetch (pingRequest u) of
           Inl e \<Rightarrow> (Threw e, a)
         | Inr response \<Rightarrow>
             if ok response then
               (case json response of
                  Inl e \<Rightarrow> (Threw e, a)
                | Inr data \<Rightarrow>
                    let a = emit (ConsoleLog
                              [LStr (''Server at '' @ u @ '' responded with:''), LVal data]) a;
                        a = a\<lparr>workingServerUrl := Some u\<rparr>;
                        a = emit (ConsoleLog [LStr (''Using server at '' @ u)]) a
                    in (Returned, a))
             else (Normal, a))"

text \<open>
  The \<^verbatim>\<open>for (const url of serverUrls)\<close> loop: a \<^verbatim>\<open>return\<close> leaves it, the
  \<^verbatim>\<open>catch\<close> clause logs what was thrown and the loop goes on.
\<close>

fun serverLoop :: "'n fetch \<Rightarrow> string list \<Rightarrow> 'n app \<Rightarrow> completion \<times> 'n app" where
  "serverLoop fetch [] a = (Normal, a)"
| "serverLoop fetch (u # us) a =
     (case probe fetch u a of
        (Returned, a') \<Rightarrow> (Returned, a')
      | (Normal, a') \<Rightarrow> serverLoop fetch us a'
      | (Threw e, a') \<Rightarrow>
          serverLoop fetch us
            (emit (ConsoleLog [LStr (''Server at '' @ u @ '' is not reachable:''), LErr e]) a'))"

text \<open>The body of \<^verbatim>\<open>findWorkingServer\<close> for a given value of \<^verbatim>\<open>serverUrls\<close>.\<close>

definition findWorkingServerFrom ::
  "'n fetch \<Rightarrow> string list \<Rightarrow> 'n app \<Rightarrow> completion \<times> 'n app" where
  "findWorkingServerFrom fetch serverUrls a =
     (let a = emit (ConsoleLog [LStr ''Trying to find a working server from:'',
                                 LVal (JArr (map JStr serverUrls))]) a
      in case serverLoop fetch serverUrls a of
           (Normal, a') \<Rightarrow> (Normal, emit (ConsoleLog [LStr ''Could not find a working server'']) a')
         | (c, a') \<Rightarrow> (c, a'))"

definition findWorkingServer ::
  "'n fetch \<Rightarrow> environment \<Rightarrow> 'n app \<Rightarrow> completion \<times> 'n app" where
  "findWorkingServer fetch env a = findWorkingServerFrom fetch (getServerUrls env) a"

text \<open>
  A candidate is reachable when its \<^verbatim>\<open>/ping\<close> answers with a success status and a
  body that decodes as JSON. The other cases: the request throws (connection error,
  time-out), the status is not a success, the body does not decode.
\<close>

definition reachable :: "'n fetch \<Rightarrow> string \<Rightarrow> bool" where
  "reachable fetch u =
     (case fetch (pingRequest u) of
        Inl e \<Rightarrow> False
      | Inr response \<Rightarrow> ok response \<and> (case json response of Inl e \<Rightarrow> False | Inr data \<Rightarrow> True))"

section \<open>The login action (\<^verbatim>\<open>handleLogin\<close>) and the logout action (\<^verbatim>\<open>handleLogout\<close>)\<close>

text \<open>
  \<^verbatim>\<open>formData.toString()\<close> after the two \<^verbatim>\<open>append\<close> calls: the two pairs joined by
  \<^verbatim>\<open>&\<close>, each value written by the platform's encoder.
\<close>

definition formString :: "'n engine \<Rightarrow> string \<Rightarrow> string \<Rightarrow> string" where
  "formString eng user pass =
     ''username='' @ encodeComponent eng user @ ''&password='' @ encodeComponent eng pass"

definition tokenRequest :: "string \<Rightarrow> string \<Rightarrow> request" where
  "tokenRequest base form =
     \<lparr>url = base @ ''/token'', meth = POST,
      headers = [(''Content-Type'', ''application/x-www-form-urlencoded''),
                 (''Accept'', ''application/json'')],
      body = Some form\<rparr>"

text \<open>
  The \<^verbatim>\<open>try\<close> block of \<^verbatim>\<open>handleLogin\<close>, entered with a non-empty
  \<^verbatim>\<open>workingServerUrl\<close>. \<^verbatim>\<open>throw new Error(data.detail || 'Login failed')\<close> reads the
  property (which throws on \<^verbatim>\<open>null\<close>), takes the default when the value is falsy and
  converts the result to the message string.
\<close>

definition loginTry :: "'n engine \<Rightarrow> 'n fetch \<Rightarrow> string \<Rightarrow> 'n app \<Rightarrow> completion \<times> 'n app" where
  "loginTry eng fetch base a =
     (let a = emit (ConsoleLog [LStr (''Attempting to login at: '' @ base @ ''/token'')]) a;
          form = formString eng (username a) (password a);
          a = emit (ConsoleLog [LStr ''Form data being sent:'', LStr form]) a;
          a = emit (Fetch (tokenRequest base form)) a
      in case fetch (tokenRequest base form) of
           Inl e \<Rightarrow> (Threw e, a)
         | Inr response \<Rightarrow>
            (let a = emit (ConsoleLog [LStr ''Response status:'', LNum (status response)]) a
             in case json response of
                  Inl e \<Rightarrow> (Threw e, a)
                | Inr data \<Rightarrow>
                   (let a = emit (ConsoleLog [LStr ''Response data:'', LVal data]) a
                    in if \<not> ok response then
                         (case getProp eng data ''detail'' of
                            Inl e \<Rightarrow> (Threw e, a)
                          | Inr detail \<Rightarrow>
                             (case toString eng
                                     (if truthy eng detail then detail
                                      else JStr ''Login failed'') of
                                Inl e \<Rightarrow> (Threw e, a)
                              | Inr message \<Rightarrow> (Threw (JsError message), a)))
                       else
                         (let a = emit (ConsoleLog [LStr ''Login successful:'', LVal data]) a
                          in case getProp eng data ''access_token'' of
                               Inl e \<Rightarrow> (Threw e, a)
                             | Inr t \<Rightarrow>
                                (let a = emit (StoreLogin t) (a\<lparr>store := login t (store a)\<rparr>);
                                     a = emit (Navigate ''Overview'') a
                                 in (Normal, a))))))"

text \<open>\<^verbatim>\<open>error instanceof Error ? error.message : 'Something went wrong'\<close>\<close>

fun alertMessage :: "thrown \<Rightarrow> string" where
  "alertMessage (JsError message) = message"
| "alertMessage NonError = ''Something went wrong''"

text \<open>The \<^verbatim>\<open>catch\<close> clause of \<^verbatim>\<open>handleLogin\<close>.\<close>

definition loginCatch :: "thrown \<Rightarrow> 'n app \<Rightarrow> 'n app" where
  "loginCatch error a =
     (let a = emit (ConsoleError [LStr ''Login error:'', LErr error]) a
      in emit (Alert ''Login Failed'' (alertMessage error)) a)"

text \<open>
  \<^verbatim>\<open>!workingServerUrl\<close>: \<^verbatim>\<open>null\<close> and the empty string are falsy; past the test the
  value is a non-empty string.
\<close>

fun truthyString :: "string option \<Rightarrow> string option" where
  "truthyString None = None"
| "truthyString (Some v) = (if v = [] then None else Some v)"

definition handleLogin :: "'n engine \<Rightarrow> 'n fetch \<Rightarrow> 'n app \<Rightarrow> 'n app" where
  "handleLogin eng fetch a =
     (if username a = [] \<or> password a = [] then
        emit (Alert ''Error'' ''Please enter both username and password'') a
      else
        (case truthyString (workingServerUrl a) of
           None \<Rightarrow>
             emit (Alert ''Server Connection Error''
               ''Cannot connect to the server. Please check your network connection and try again.'') a
         | Some base \<Rightarrow>
            (let a = a\<lparr>isLoading := True\<rparr>;
                 (c, a) = loginTry eng fetch base a;
                 a = (case c of Threw error \<Rightarrow> loginCatch error a | _ \<Rightarrow> a)
             in a\<lparr>isLoading := False\<rparr>)))"

text \<open>\<^verbatim>\<open>handleLogout\<close> of the overview screen.\<close>

definition handleLogout :: "'n app \<Rightarrow> 'n app" where
  "handleLogout a =
     (let a = emit StoreLogout (a\<lparr>store := logout (store a)\<rparr>)
      in emit (Navigate ''Login'') a)"

section \<open>Concrete states, networks and an engine to run the screens on\<close>

text \<open>The state at process start: the store's initial state and the initial \<^verbatim>\<open>useState\<close> values.\<close>

definition initialApp :: "'n app" where
  "initialApp =
     \<lparr>store = useAuthStore, username = [], password = [], isLoading = False,
      workingServerUrl = None, effects = []\<rparr>"

text \<open>
  Two networks to run the resolver on. In the first, \<^verbatim>\<open>http://a\<close> does not answer and
  every other host answers \<^verbatim>\<open>200 {"status":"ok"}\<close>. In the second nothing is reachable:
  \<^verbatim>\<open>http://a\<close> does not answer, \<^verbatim>\<open>http://b\<close> answers 500, every other host answers
  200 with a body that is not JSON.
\<close>

definition exampleNetwork :: "unit fetch" where
  "exampleNetwork r =
     (if url r = ''http://a/ping'' then Inl (JsError ''Network request failed'')
      else Inr \<lparr>status = 200, json = Inr (JObj [(''status'', JStr ''ok'')])\<rparr>)"

definition deadNetwork :: "unit fetch" where
  "deadNetwork r =
     (if url r = ''http://a/ping'' then Inl (JsError ''Network request failed'')
      else if url r = ''http://b/ping'' then Inr \<lparr>status = 500, json = Inr (JObj [])\<rparr>
      else Inr \<lparr>status = 200, json = Inl (JsError ''JSON Parse error'')\<rparr>)"

text \<open>
  One encoder for \<open>encodeComponent\<close>: the byte serialiser of
  \<^verbatim>\<open>application/x-www-form-urlencoded\<close>. Letters, digits and \<^verbatim>\<open>* - . _\<close> stand for
  themselves, a space becomes \<^verbatim>\<open>+\<close>, any other byte \<^verbatim>\<open>%\<close> and two hexadecimal digits.
\<close>

definition unreserved :: "char \<Rightarrow> bool" where
  "unreserved c = (c \<in> set (''ABCDEFGHIJKLMNOPQRSTUVWXYZ'' @ ''abcdefghijklmnopqrstuvwxyz''
       @ ''0123456789'' @ ''*-._''))"

definition hexDigit :: "nat \<Rightarrow> char" where
  "hexDigit n = ''0123456789ABCDEF'' ! (n mod 16)"

definition encodeByte :: "char \<Rightarrow> string" where
  "encodeByte c =
     (if unreserved c then [c]
      else if c = CHR '' '' then ''+''
      else [CHR ''%'', hexDigit (of_char c div 16), hexDigit (of_char c)])"

definition formUrlEncode :: "string \<Rightarrow> string" where
  "formUrlEncode s = concat (map encodeByte s)"

text \<open>
  A sample engine for running the screens on concrete inputs. Its encoder is the form
  encoder above, and its \<^verbatim>\<open>TypeError\<close> for a read off \<^verbatim>\<open>null\<close> has the text Hermes gives
  (\<^verbatim>\<open>Cannot read property 'name' of null\<close>). The sample has a single number, which is
  truthy; the conversion of a value that is not a string is never run on the sample
  bodies below, and the sample gives one fixed string for it.
\<close>

definition exampleEngine :: "unit engine" where
  "exampleEngine =
     \<lparr>numberFalsy = (\<lambda>n. False),
      toStringOther = (\<lambda>v. Inr ''[object Object]''),
      nullRead = (\<lambda>name. JsError (''Cannot read property '' @ [CHR 0x27] @ name
                                     @ [CHR 0x27] @ '' of null'')),
      encodeComponent = formUrlEncode\<rparr>"

text \<open>
  The login screen with the README's test credentials typed in and a server resolved.
\<close>

definition readyApp :: "unit app" where
  "readyApp =
     \<lparr>store = useAuthStore, username = ''johndoe'', password = ''password123'',
      isLoading = False, workingServerUrl = Some ''http://host:8000'', effects = []\<rparr>"

text \<open>
  Servers: one that cannot be reached at all; one behind a gateway that answers 502 with
  an HTML page; one that rejects the credentials as the backend does; one that rejects
  them with the JSON text \<^verbatim>\<open>null\<close> for a body; one that answers
  200 with a JSON object that has no \<^verbatim>\<open>access_token\<close>; one that answers 200 with the
  JSON text \<^verbatim>\<open>null\<close>.
\<close>

definition downServer :: "unit fetch" where
  "downServer r = Inl (JsError ''Network request failed'')"

definition gatewayServer :: "unit fetch" where
  "gatewayServer r =
     Inr \<lparr>status = 502, json = Inl (JsError ''JSON Parse error: Unexpected character: <'')\<rparr>"

definition rejectingServer :: "unit fetch" where
  "rejectingServer r =
     Inr \<lparr>status = 401,
          json = Inr (JObj [(''detail'', JStr ''Incorrect username or password'')])\<rparr>"

definition nullRejectingServer :: "unit fetch" where
  "nullRejectingServer r = Inr \<lparr>status = 401, json = Inr JNull\<rparr>"

definition tokenlessServer :: "unit fetch" where
  "tokenlessServer r = Inr \<lparr>status = 200, json = Inr (JObj [(''token_type'', JStr ''bearer'')])\<rparr>"

definition nullServer :: "unit fetch" where
  "nullServer r = Inr \<lparr>status = 200, json = Inr JNull\<rparr>"

text \<open>
  The message C3 words for a failed attempt: the server's detail string when there is
  one, the generic message otherwise.
\<close>

definition claimedMessage :: "'n engine \<Rightarrow> thrown + 'n response \<Rightarrow> string" where
  "claimedMessage eng outcome =
     (case outcome of
        Inl e \<Rightarrow> ''Login failed''
      | Inr response \<Rightarrow>
         (case json response of
            Inl e \<Rightarrow> ''Login failed''
          | Inr data \<Rightarrow>
             (case getProp eng data ''detail'' of
                Inr (JStr d) \<Rightarrow> (if d = [] then ''Login failed'' else d)
              | _ \<Rightarrow> ''Login failed'')))"

text \<open>
  A failed attempt, in C3's words: no response at all, a status that is not a success,
  or a body that does not decode.
\<close>

definition failedAttempt :: "thrown + 'n response \<Rightarrow> bool" where
  "failedAttempt outcome =
     (case outcome of
        Inl e \<Rightarrow> True
      | Inr response \<Rightarrow> \<not> ok response \<or> (case json response of Inl e \<Rightarrow> True | Inr data \<Rightarrow> False))"

text \<open>
  A decoded body lacks a field, in C10's words: an object without that key, or a value
  that has no fields at all.
\<close>

fun lacksField :: "'n jsval \<Rightarrow> string \<Rightarrow> bool" where
  "lacksField (JObj kvs) name = (name \<notin> set (map fst kvs))"
| "lacksField v name = True"

section \<open>Properties of the auth store\<close>

lemma apply_op_invariant:
  "is_nonempty_login x \<Longrightarrow> session_invariant (apply_op x s)"
  by (cases x) (simp_all add: session_invariant_def login_def logout_def)

lemma run_ops_invariant:
  "list_all is_nonempty_login xs \<Longrightarrow> session_invariant s \<Longrightarrow> session_invariant (run_ops xs s)"
  by (induction xs arbitrary: s) (simp_all add: apply_op_invariant)

lemma initial_invariant: "session_invariant useAuthStore"
  by (simp add: session_invariant_def useAuthStore_def)

text \<open>
  C1, as stated, fails: \<^verbatim>\<open>login('')\<close> on the initial state sets \<open>isAuthenticated\<close> with
  an empty token, so "authenticated iff the token is non-empty" does not hold after
  that step.
\<close>

theorem C1_empty_login_breaks_invariant:
  "\<not> session_invariant (run_ops [Login []] (useAuthStore :: unit AuthState))"
  by (simp add: session_invariant_def useAuthStore_def login_def)

text \<open>
  C1, amended: starting from the initial state, after every step of a sequence of
  \<^verbatim>\<open>login(t)\<close> with non-empty \<open>t\<close> and \<^verbatim>\<open>logout()\<close>, \<open>isAuthenticated\<close> holds if and only
  if the token is a non-empty string. "After every step" is: after each prefix of the
  sequence.
\<close>

theorem C1_invariant_nonempty_logins:
  assumes "list_all is_nonempty_login ops"
  shows "session_invariant (run_ops (take n ops) useAuthStore)"
proof -
  have "list_all is_nonempty_login (take n ops)"
    using assms by (auto simp: list_all_iff dest: in_set_takeD)
  then show ?thesis
    by (rule run_ops_invariant) (rule initial_invariant)
qed

theorem C1_invariant_witness:
  "list_all is_nonempty_login [Login ''abc'', Logout, Login ''x'']
   \<and> session_invariant (run_ops (take 3 [Login ''abc'', Logout, Login ''x''])
        (useAuthStore :: unit AuthState))
   \<and> isAuthenticated (run_ops (take 3 [Login ''abc'', Logout, Login ''x''])
        (useAuthStore :: unit AuthState))"
proof -
  have h: "list_all is_nonempty_login [Login ''abc'', Logout, Login ''x'']"
    by simp
  have "isAuthenticated (run_ops (take 3 [Login ''abc'', Logout, Login ''x''])
        (useAuthStore :: unit AuthState))"
    by (simp add: login_def logout_def useAuthStore_def)
  with h C1_invariant_nonempty_logins [OF h, of 3, where ?'a = unit] show ?thesis
    by simp
qed

text \<open>
  C5: whatever the state before, \<^verbatim>\<open>login(t)\<close> leaves exactly
  \<open>{token: t, isAuthenticated: true}\<close>: nothing of the prior state remains. It holds for
  every string \<open>t\<close>, so for every non-empty one.
\<close>

theorem C5_login_overwrites:
  "login (JStr t) s = \<lparr>token = JStr t, isAuthenticated = True\<rparr>"
  by (simp add: login_def)

text \<open>
  C6: whatever the state before, \<^verbatim>\<open>logout()\<close> leaves exactly the initial state
  \<open>{token: null, isAuthenticated: false}\<close>; calling it on the initial state or twice
  changes nothing more. \<^verbatim>\<open>handleLogout\<close> of the overview screen does that to the store,
  and then navigates to the login screen.
\<close>

theorem C6_logout_resets:
  "logout s = useAuthStore
   \<and> logout s = \<lparr>token = JNull, isAuthenticated = False\<rparr>
   \<and> logout (logout s) = logout s
   \<and> logout (useAuthStore :: 'n AuthState) = useAuthStore
   \<and> store (handleLogout a) = \<lparr>token = JNull, isAuthenticated = False\<rparr>
   \<and> effects (handleLogout a) = effects a @ [StoreLogout, Navigate ''Login'']"
  by (simp add: logout_def useAuthStore_def handleLogout_def emit_def)

section \<open>Properties of the candidate list\<close>

lemma setAdd_old: "x \<in> set acc \<Longrightarrow> setAdd acc x = acc"
  by (simp add: setAdd_def)

lemma setAdd_new: "x \<notin> set acc \<Longrightarrow> setAdd acc x = acc @ [x]"
  by (simp add: setAdd_def)

lemma foldl_setAdd_set: "set (foldl setAdd acc xs) = set acc \<union> set xs"
  by (induction xs arbitrary: acc) (auto simp: setAdd_def)

lemma foldl_setAdd_distinct: "distinct acc \<Longrightarrow> distinct (foldl setAdd acc xs)"
  by (induction xs arbitrary: acc) (auto simp: setAdd_def)

text \<open>
  Insertion order is first-seen order: the accumulated list stays in front, and each
  further element is kept exactly where it first occurs.
\<close>

lemma foldl_setAdd_first_seen:
  "foldl setAdd acc xs = acc @ newSet (filter (\<lambda>x. x \<notin> set acc) xs)"
proof (induction xs arbitrary: acc rule: length_induct)
  case (1 xs)
  show ?case
  proof (cases xs)
    case Nil
    then show ?thesis by (simp add: newSet_def)
  next
    case (Cons x ys)
    have short: "length (filter P ys) < length xs" for P
      using Cons by (simp add: le_imp_less_Suc)
    show ?thesis
    proof (cases "x \<in> set acc")
      case True
      have "foldl setAdd acc ys = acc @ newSet (filter (\<lambda>x. x \<notin> set acc) ys)"
        using "1.IH" Cons by simp
      with True Cons show ?thesis by (simp add: setAdd_old)
    next
      case False
      let ?zs = "filter (\<lambda>y. y \<notin> set acc) ys"
      have a: "foldl setAdd (acc @ [x]) ys
          = (acc @ [x]) @ newSet (filter (\<lambda>y. y \<notin> set (acc @ [x])) ys)"
        using "1.IH" Cons by simp
      have b: "foldl setAdd [x] ?zs = [x] @ newSet (filter (\<lambda>y. y \<notin> set [x]) ?zs)"
        using "1.IH" short by blast
      have c: "filter (\<lambda>y. y \<notin> set (acc @ [x])) ys = filter (\<lambda>y. y \<notin> set [x]) ?zs"
        by (auto intro: filter_cong)
      have "newSet (x # ?zs) = foldl setAdd [x] ?zs"
        by (simp add: newSet_def setAdd_new)
      with a b c False Cons show ?thesis
        by (simp add: setAdd_new)
    qed
  qed
qed

lemma newSet_Cons: "newSet (x # xs) = x # newSet (filter (\<lambda>y. y \<noteq> x) xs)"
proof -
  have "newSet (x # xs) = foldl setAdd [x] xs"
    by (simp add: newSet_def setAdd_new)
  then show ?thesis
    using foldl_setAdd_first_seen [of "[x]" xs] by simp
qed

lemma newSet_set: "set (newSet xs) = set xs"
  by (simp add: newSet_def foldl_setAdd_set)

lemma newSet_distinct: "distinct (newSet xs)"
  by (simp add: newSet_def foldl_setAdd_distinct)

lemma getServerUrls_sources: "getServerUrls env = newSet (platformSources env)"
  by (simp add: getServerUrls_def platformSources_def threeSources_def)

lemma newSet_firstSeen: "newSet xs = firstSeen xs"
proof (induction xs rule: firstSeen.induct)
  case 1
  show ?case by (simp add: newSet_def)
next
  case (2 x xs)
  then show ?case by (simp add: newSet_Cons)
qed

text \<open>
  C8, as stated, fails off Android: the emulator address is pushed only when
  \<^verbatim>\<open>Platform.OS === 'android'\<close>, so on iOS the list has two sources, and an emulator
  address that the environment sets is not in it.
\<close>

theorem C8_ios_has_two_sources:
  "getServerUrls \<lparr>platformOS = ''ios'', API_URL_EMULATOR = Some ''http://emu:8000'',
       API_URL_LOCAL = None, API_URL_DEVICE = None\<rparr>
     = [''http://localhost:8000'', ''http://127.0.0.1:8000'']
   \<and> getServerUrls \<lparr>platformOS = ''ios'', API_URL_EMULATOR = Some ''http://emu:8000'',
       API_URL_LOCAL = None, API_URL_DEVICE = None\<rparr>
     \<noteq> firstSeen (threeSources \<lparr>platformOS = ''ios'',
       API_URL_EMULATOR = Some ''http://emu:8000'',
       API_URL_LOCAL = None, API_URL_DEVICE = None\<rparr>)"
  by (simp add: getServerUrls_def newSet_def setAdd_def threeSources_def)

text \<open>
  C8, amended: on Android the list is built from three sources in priority order
  (emulator, local, physical device), on every other platform from two (local, physical
  device); each source is the environment variable, or its default when the variable is
  unset or empty; the list is the sources deduplicated in first-seen order, has no
  duplicates and is never empty.
\<close>

theorem C8_candidate_list:
  "getServerUrls env = firstSeen (platformSources env)
   \<and> distinct (getServerUrls env)
   \<and> getServerUrls env \<noteq> []
   \<and> set (getServerUrls env) = set (platformSources env)
   \<and> (platformOS env = ''android'' \<longrightarrow> platformSources env =
         [orDefault (API_URL_EMULATOR env) ''http://10.0.2.2:8000'',
          orDefault (API_URL_LOCAL env) ''http://localhost:8000'',
          orDefault (API_URL_DEVICE env) ''http://127.0.0.1:8000''])
   \<and> (platformOS env \<noteq> ''android'' \<longrightarrow> platformSources env =
         [orDefault (API_URL_LOCAL env) ''http://localhost:8000'',
          orDefault (API_URL_DEVICE env) ''http://127.0.0.1:8000''])"
proof -
  have src: "getServerUrls env = newSet (platformSources env)"
    by (rule getServerUrls_sources)
  have "platformSources env \<noteq> []"
    by (simp add: platformSources_def threeSources_def)
  then have "set (newSet (platformSources env)) \<noteq> {}"
    by (simp add: newSet_set)
  then have "newSet (platformSources env) \<noteq> []"
    by auto
  with src show ?thesis
    by (simp add: newSet_firstSeen [symmetric] newSet_distinct newSet_set
        platformSources_def threeSources_def)
qed

theorem C8_candidate_list_witness:
  "getServerUrls \<lparr>platformOS = ''android'', API_URL_EMULATOR = None,
       API_URL_LOCAL = Some ''http://10.0.2.2:8000'', API_URL_DEVICE = Some []\<rparr>
     = [''http://10.0.2.2:8000'', ''http://127.0.0.1:8000'']
   \<and> getServerUrls \<lparr>platformOS = ''web'', API_URL_EMULATOR = None,
       API_URL_LOCAL = None, API_URL_DEVICE = Some ''http://192.168.1.5:8000''\<rparr>
     = [''http://localhost:8000'', ''http://192.168.1.5:8000'']"
  using
    C8_candidate_list [of "\<lparr>platformOS = ''android'', API_URL_EMULATOR = None,
       API_URL_LOCAL = Some ''http://10.0.2.2:8000'', API_URL_DEVICE = Some []\<rparr>"]
    C8_candidate_list [of "\<lparr>platformOS = ''web'', API_URL_EMULATOR = None,
       API_URL_LOCAL = None, API_URL_DEVICE = Some ''http://192.168.1.5:8000''\<rparr>"]
  by simp

section \<open>Properties of the endpoint resolver\<close>

lemma requests_append: "requests (xs @ ys) = requests xs @ requests ys"
  by (induction xs rule: requests.induct) simp_all

lemma alerts_append: "alerts (xs @ ys) = alerts xs @ alerts ys"
  by (induction xs rule: alerts.induct) simp_all

lemma probe_reachable:
  assumes "reachable fetch u"
  shows "\<exists>a'. probe fetch u a = (Returned, a')
     \<and> workingServerUrl a' = Some u
     \<and> store a' = store a
     \<and> requests (effects a') = requests (effects a) @ [pingRequest u]"
  using assms
  by (auto simp: reachable_def probe_def emit_def requests_append Let_def
      split: sum.splits)

lemma probe_unreachable:
  assumes "\<not> reachable fetch u"
  shows "\<exists>c a'. probe fetch u a = (c, a') \<and> c \<noteq> Returned
     \<and> workingServerUrl a' = workingServerUrl a
     \<and> store a' = store a
     \<and> requests (effects a') = requests (effects a) @ [pingRequest u]"
  using assms
  by (auto simp: reachable_def probe_def emit_def requests_append Let_def
      split: sum.splits)

lemma serverLoop_skips_unreachable:
  assumes "\<forall>x\<in>set pre. \<not> reachable fetch x"
  shows "\<exists>a'. serverLoop fetch (pre @ rest) a = serverLoop fetch rest a'
     \<and> workingServerUrl a' = workingServerUrl a
     \<and> store a' = store a
     \<and> requests (effects a') = requests (effects a) @ map pingRequest pre"
  using assms
proof (induction pre arbitrary: a)
  case Nil
  then show ?case by (intro exI [of _ a]) simp
next
  case (Cons u us)
  then have "\<not> reachable fetch u" by simp
  from probe_unreachable [OF this, of a]
  obtain c a1 where p: "probe fetch u a = (c, a1)" "c \<noteq> Returned"
    "workingServerUrl a1 = workingServerUrl a" "store a1 = store a"
    "requests (effects a1) = requests (effects a) @ [pingRequest u]"
    by blast
  define a2 where "a2 = (case c of Threw e \<Rightarrow>
      emit (ConsoleLog [LStr (''Server at '' @ u @ '' is not reachable:''), LErr e]) a1 | _ \<Rightarrow> a1)"
  have step: "serverLoop fetch ((u # us) @ rest) a = serverLoop fetch (us @ rest) a2"
    using p(1,2) by (cases c) (simp_all add: a2_def)
  have a2: "workingServerUrl a2 = workingServerUrl a" "store a2 = store a"
    "requests (effects a2) = requests (effects a) @ [pingRequest u]"
    using p by (cases c; simp add: a2_def emit_def requests_append)+
  from Cons.IH [of a2] Cons.prems
  obtain a' where "serverLoop fetch (us @ rest) a2 = serverLoop fetch rest a'"
    "workingServerUrl a' = workingServerUrl a2" "store a' = store a2"
    "requests (effects a') = requests (effects a2) @ map pingRequest us"
    by auto
  with step a2 show ?case by auto
qed

text \<open>
  C2: when some candidate is reachable, the list splits at its first reachable entry
  \<open>u\<close> (nothing before it is reachable); \<^verbatim>\<open>findWorkingServer\<close> returns from inside the
  loop with \<open>workingServerUrl = u\<close>, whatever is reachable after \<open>u\<close>, and the requests it
  has sent are the pings of the entries up to \<open>u\<close>, in order, and no other: no candidate
  after \<open>u\<close> is probed.
\<close>

theorem C2_first_reachable_wins:
  assumes "\<exists>u\<in>set urls. reachable fetch u"
  shows "\<exists>pre u post a'.
       urls = pre @ u # post
     \<and> (\<forall>x\<in>set pre. \<not> reachable fetch x)
     \<and> reachable fetch u
     \<and> findWorkingServerFrom fetch urls a = (Returned, a')
     \<and> workingServerUrl a' = Some u
     \<and> store a' = store a
     \<and> requests (effects a') = requests (effects a) @ map pingRequest (pre @ [u])"
proof -
  from assms obtain pre u post where
    split: "urls = pre @ u # post" "reachable fetch u" "\<forall>x\<in>set pre. \<not> reachable fetch x"
    using split_list_first_prop [of urls "reachable fetch"] by blast
  let ?a0 = "emit (ConsoleLog [LStr ''Trying to find a working server from:'',
                                 LVal (JArr (map JStr urls))]) a"
  have a0: "workingServerUrl ?a0 = workingServerUrl a" "store ?a0 = store a"
    "requests (effects ?a0) = requests (effects a)"
    by (simp_all add: emit_def requests_append)
  from serverLoop_skips_unreachable [OF split(3), of "u # post" ?a0]
  obtain a1 where a1: "serverLoop fetch (pre @ u # post) ?a0 = serverLoop fetch (u # post) a1"
    "store a1 = store ?a0"
    "requests (effects a1) = requests (effects ?a0) @ map pingRequest pre"
    by blast
  from probe_reachable [OF split(2), of a1]
  obtain a' where a': "probe fetch u a1 = (Returned, a')" "workingServerUrl a' = Some u"
    "store a' = store a1" "requests (effects a') = requests (effects a1) @ [pingRequest u]"
    by blast
  have "serverLoop fetch urls ?a0 = (Returned, a')"
    using a1(1) a'(1) split(1) by simp
  then have "findWorkingServerFrom fetch urls a = (Returned, a')"
    by (simp add: findWorkingServerFrom_def)
  moreover have "requests (effects a') = requests (effects a) @ map pingRequest (pre @ [u])"
    using a'(4) a1(3) a0(3) by simp
  moreover have "store a' = store a"
    using a'(3) a1(2) a0(2) by simp
  ultimately show ?thesis
    using split a'(2) by blast
qed

theorem C2_first_reachable_witness:
  "(\<exists>u\<in>set [''http://a'', ''http://b'', ''http://c'']. reachable exampleNetwork u)
   \<and> (\<exists>pre u post a'.
         [''http://a'', ''http://b'', ''http://c''] = pre @ u # post
       \<and> (\<forall>x\<in>set pre. \<not> reachable exampleNetwork x)
       \<and> reachable exampleNetwork u
       \<and> findWorkingServerFrom exampleNetwork [''http://a'', ''http://b'', ''http://c'']
            initialApp = (Returned, a')
       \<and> workingServerUrl a' = Some u
       \<and> store a' = store (initialApp :: unit app)
       \<and> requests (effects a')
           = requests (effects (initialApp :: unit app)) @ map pingRequest (pre @ [u]))
   \<and> reachable exampleNetwork ''http://c''
   \<and> workingServerUrl (snd (findWorkingServerFrom exampleNetwork
         [''http://a'', ''http://b'', ''http://c''] initialApp)) = Some ''http://b''
   \<and> requests (effects (snd (findWorkingServerFrom exampleNetwork
         [''http://a'', ''http://b'', ''http://c''] initialApp)))
       = [pingRequest ''http://a'', pingRequest ''http://b'']"
proof -
  have h: "\<exists>u\<in>set [''http://a'', ''http://b'', ''http://c'']. reachable exampleNetwork u"
    by (simp add: reachable_def exampleNetwork_def pingRequest_def ok_def)
  have c: "reachable exampleNetwork ''http://c''"
    by (simp add: reachable_def exampleNetwork_def pingRequest_def ok_def)
  have run: "workingServerUrl (snd (findWorkingServerFrom exampleNetwork
         [''http://a'', ''http://b'', ''http://c''] initialApp)) = Some ''http://b''"
    "requests (effects (snd (findWorkingServerFrom exampleNetwork
         [''http://a'', ''http://b'', ''http://c''] initialApp)))
       = [pingRequest ''http://a'', pingRequest ''http://b'']"
    by (simp_all add: findWorkingServerFrom_def probe_def exampleNetwork_def pingRequest_def
        ok_def emit_def initialApp_def)
  from h c run C2_first_reachable_wins [OF h, of initialApp] show ?thesis
    by blast
qed

text \<open>
  C7: when no candidate is reachable (its request throws, its status is not a success,
  or its body does not decode), \<^verbatim>\<open>findWorkingServer\<close> runs to its end without
  throwing: every candidate has been pinged once, in order, \<open>workingServerUrl\<close> is what
  it was (absent, from the initial state), and the last thing done is the log line
  that no server was found.
\<close>

theorem C7_no_reachable_gives_absent:
  assumes "\<forall>u\<in>set urls. \<not> reachable fetch u"
  shows "\<exists>a'. findWorkingServerFrom fetch urls a = (Normal, a')
     \<and> workingServerUrl a' = workingServerUrl a
     \<and> store a' = store a
     \<and> requests (effects a') = requests (effects a) @ map pingRequest urls
     \<and> last (effects a') = ConsoleLog [LStr ''Could not find a working server'']"
proof -
  let ?a0 = "emit (ConsoleLog [LStr ''Trying to find a working server from:'',
                                 LVal (JArr (map JStr urls))]) a"
  have a0: "workingServerUrl ?a0 = workingServerUrl a" "store ?a0 = store a"
    "requests (effects ?a0) = requests (effects a)"
    by (simp_all add: emit_def requests_append)
  from serverLoop_skips_unreachable [OF assms, of "[]" ?a0]
  obtain a1 where a1: "serverLoop fetch urls ?a0 = (Normal, a1)"
    "workingServerUrl a1 = workingServerUrl ?a0"
    "store a1 = store ?a0"
    "requests (effects a1) = requests (effects ?a0) @ map pingRequest urls"
    by auto
  let ?a' = "emit (ConsoleLog [LStr ''Could not find a working server'']) a1"
  have "findWorkingServerFrom fetch urls a = (Normal, ?a')"
    using a1(1) by (simp add: findWorkingServerFrom_def)
  moreover have "workingServerUrl ?a' = workingServerUrl a" "store ?a' = store a"
    "requests (effects ?a') = requests (effects a) @ map pingRequest urls"
    "last (effects ?a') = ConsoleLog [LStr ''Could not find a working server'']"
    using a0 a1 by (simp_all add: emit_def requests_append)
  ultimately show ?thesis
    by blast
qed

theorem C7_no_reachable_witness:
  "\<not> reachable deadNetwork ''http://a''
   \<and> \<not> reachable deadNetwork ''http://b''
   \<and> \<not> reachable deadNetwork ''http://c''
   \<and> (\<exists>a'. findWorkingServerFrom deadNetwork [''http://a'', ''http://b'', ''http://c'']
            initialApp = (Normal, a')
       \<and> workingServerUrl a' = None
       \<and> requests (effects a')
           = map pingRequest [''http://a'', ''http://b'', ''http://c''])"
proof -
  have h: "\<forall>u\<in>set [''http://a'', ''http://b'', ''http://c'']. \<not> reachable deadNetwork u"
    by (simp add: reachable_def deadNetwork_def pingRequest_def ok_def)
  from C7_no_reachable_gives_absent [OF h, of initialApp] h show ?thesis
    by (auto simp: initialApp_def)
qed

section \<open>Properties of the login action\<close>

lemma storeCalls_append: "storeCalls (xs @ ys) = storeCalls xs @ storeCalls ys"
  by (induction xs rule: storeCalls.induct) simp_all

lemma navigations_append: "navigations (xs @ ys) = navigations xs @ navigations ys"
  by (induction xs rule: navigations.induct) simp_all

text \<open>
  Past the two guards \<^verbatim>\<open>handleLogin\<close> is: set the busy flag, run the \<^verbatim>\<open>try\<close> block,
  run the \<^verbatim>\<open>catch\<close> clause on what it threw, clear the busy flag.
\<close>

lemma handleLogin_ready:
  assumes "username a \<noteq> []" "password a \<noteq> []" "truthyString (workingServerUrl a) = Some base"
  shows "handleLogin eng fetch a =
     (case loginTry eng fetch base (a\<lparr>isLoading := True\<rparr>) of
        (Threw error, a') \<Rightarrow> (loginCatch error a')\<lparr>isLoading := False\<rparr>
      | (c, a') \<Rightarrow> a'\<lparr>isLoading := False\<rparr>)"
  using assms by (simp add: handleLogin_def split: prod.splits completion.splits)

text \<open>
  When the attempt fails the \<^verbatim>\<open>try\<close> block throws, having sent its one request and
  touched neither the store nor the navigation.
\<close>

lemma loginTry_failed:
  assumes "failedAttempt (fetch (tokenRequest base (formString eng (username a) (password a))))"
  shows "\<exists>e a'. loginTry eng fetch base a = (Threw e, a')
     \<and> store a' = store a
     \<and> storeCalls (effects a') = storeCalls (effects a)
     \<and> navigations (effects a') = navigations (effects a)
     \<and> alerts (effects a') = alerts (effects a)
     \<and> requests (effects a')
         = requests (effects a) @ [tokenRequest base (formString eng (username a) (password a))]"
  using assms
  by (auto simp: failedAttempt_def loginTry_def emit_def Let_def storeCalls_append
      navigations_append alerts_append requests_append split: sum.splits)

text \<open>What the \<^verbatim>\<open>try\<close> block throws, case by case.\<close>

lemma loginTry_thrown:
  assumes "loginTry eng fetch base a = (Threw x, a')"
  defines "req \<equiv> tokenRequest base (formString eng (username a) (password a))"
  shows "(\<forall>e. fetch req = Inl e \<longrightarrow> x = e)
    \<and> (\<forall>r e. fetch req = Inr r \<and> json r = Inl e \<longrightarrow> x = e)
    \<and> (\<forall>r data e. fetch req = Inr r \<and> json r = Inr data \<and> \<not> ok r
          \<and> getProp eng data ''detail'' = Inl e \<longrightarrow> x = e)
    \<and> (\<forall>r data v. fetch req = Inr r \<and> json r = Inr data \<and> \<not> ok r
          \<and> getProp eng data ''detail'' = Inr v \<and> \<not> truthy eng v
          \<longrightarrow> x = JsError ''Login failed'')
    \<and> (\<forall>r data v. fetch req = Inr r \<and> json r = Inr data \<and> \<not> ok r
          \<and> getProp eng data ''detail'' = Inr v \<and> truthy eng v
          \<longrightarrow> x = (case toString eng v of Inl e \<Rightarrow> e | Inr m \<Rightarrow> JsError m))"
  using assms(1) unfolding req_def
  by (auto simp: loginTry_def emit_def Let_def split: sum.splits if_splits)

lemmas run_defs = handleLogin_def loginTry_def loginCatch_def emit_def formString_def
  tokenRequest_def ok_def readyApp_def exampleEngine_def useAuthStore_def login_def
  formUrlEncode_def encodeByte_def unreserved_def hexDigit_def Let_def

text \<open>
  C3, as stated, fails on the message. When the server cannot be reached, and when a
  gateway answers 502 with a page that is not JSON, there is no detail string, so the
  claim has the generic "Login failed" surfaced; the alert shows the message of the
  error that \<^verbatim>\<open>fetch\<close> or \<^verbatim>\<open>response.json()\<close> threw.
\<close>

theorem C3_thrown_message_is_surfaced:
  "failedAttempt (downServer (tokenRequest ''http://host:8000''
       (formString exampleEngine (username readyApp) (password readyApp))))
   \<and> alerts (effects (handleLogin exampleEngine downServer readyApp))
       = [(''Login Failed'', ''Network request failed'')]
   \<and> claimedMessage exampleEngine (downServer (tokenRequest ''http://host:8000''
       (formString exampleEngine (username readyApp) (password readyApp)))) = ''Login failed''
   \<and> failedAttempt (gatewayServer (tokenRequest ''http://host:8000''
       (formString exampleEngine (username readyApp) (password readyApp))))
   \<and> alerts (effects (handleLogin exampleEngine gatewayServer readyApp))
       = [(''Login Failed'', ''JSON Parse error: Unexpected character: <'')]
   \<and> claimedMessage exampleEngine (gatewayServer (tokenRequest ''http://host:8000''
       (formString exampleEngine (username readyApp) (password readyApp)))) = ''Login failed''
   \<and> alerts (effects (handleLogin exampleEngine downServer readyApp))
       \<noteq> [(''Login Failed'', claimedMessage exampleEngine (downServer
             (tokenRequest ''http://host:8000''
               (formString exampleEngine (username readyApp) (password readyApp)))))]
   \<and> alerts (effects (handleLogin exampleEngine gatewayServer readyApp))
       \<noteq> [(''Login Failed'', claimedMessage exampleEngine (gatewayServer
             (tokenRequest ''http://host:8000''
               (formString exampleEngine (username readyApp) (password readyApp)))))]"
  by (simp add: run_defs failedAttempt_def claimedMessage_def downServer_def gatewayServer_def)

text \<open>
  C3, amended: for every failed login attempt (non-empty credentials, a resolved
  endpoint, and the request throws, or the status is not a success, or the body does
  not decode) \<^verbatim>\<open>handleLogin\<close> leaves the store as it was, calls neither store mutator,
  does not navigate, and shows one alert titled "Login Failed". Its message is, when
  the status is not a success and the body decodes to \<open>data\<close>:
  \<^item> \<open>data.detail\<close> itself when that is a non-empty string;
  \<^item> "Login failed" when \<open>data\<close> is not \<open>null\<close> and \<open>data.detail\<close> is falsy (missing,
    \<open>null\<close>, \<open>false\<close>, zero or the empty string);
  \<^item> the string conversion of \<open>data.detail\<close> when that is truthy and not a string, or
    the message of what the conversion throws;
  \<^item> the message of the \<^verbatim>\<open>TypeError\<close> that reading \<open>detail\<close> throws when \<open>data\<close> is
    \<open>null\<close>;

  and, when the request throws or the body does not decode, the message of what was
  thrown. Where a thrown value is not an \<open>Error\<close>, the message is "Something went
  wrong".
\<close>

theorem C3_failed_login:
  fixes eng :: "'n engine" and fetch :: "'n fetch" and a :: "'n app" and base :: string
  defines "req \<equiv> tokenRequest base (formString eng (username a) (password a))"
  defines "a' \<equiv> handleLogin eng fetch a"
  assumes ready: "username a \<noteq> []" "password a \<noteq> []"
      "truthyString (workingServerUrl a) = Some base"
    and failed: "failedAttempt (fetch req)"
  shows "store a' = store a
    \<and> storeCalls (effects a') = storeCalls (effects a)
    \<and> navigations (effects a') = navigations (effects a)
    \<and> (\<exists>msg. alerts (effects a') = alerts (effects a) @ [(''Login Failed'', msg)]
        \<and> (\<forall>r data d. fetch req = Inr r \<and> json r = Inr data \<and> \<not> ok r
              \<and> getProp eng data ''detail'' = Inr (JStr d) \<and> d \<noteq> [] \<longrightarrow> msg = d)
        \<and> (\<forall>r data v. fetch req = Inr r \<and> json r = Inr data \<and> \<not> ok r
              \<and> getProp eng data ''detail'' = Inr v \<and> \<not> truthy eng v
              \<longrightarrow> msg = ''Login failed'')
        \<and> (\<forall>r data v. fetch req = Inr r \<and> json r = Inr data \<and> \<not> ok r
              \<and> getProp eng data ''detail'' = Inr v \<and> truthy eng v
              \<longrightarrow> msg = alertMessage (case toString eng v of Inl e \<Rightarrow> e | Inr m \<Rightarrow> JsError m))
        \<and> (\<forall>r data e. fetch req = Inr r \<and> json r = Inr data \<and> \<not> ok r
              \<and> getProp eng data ''detail'' = Inl e \<longrightarrow> msg = alertMessage e)
        \<and> (\<forall>r. fetch req = Inr r \<and> json r = Inr JNull \<and> \<not> ok r
              \<longrightarrow> msg = alertMessage (nullRead eng ''detail''))
        \<and> (\<forall>r e. fetch req = Inr r \<and> json r = Inl e \<longrightarrow> msg = alertMessage e)
        \<and> (\<forall>e. fetch req = Inl e \<longrightarrow> msg = alertMessage e))"
proof -
  let ?a1 = "a\<lparr>isLoading := True\<rparr>"
  have "failedAttempt (fetch (tokenRequest base (formString eng (username ?a1) (password ?a1))))"
    using failed by (simp add: req_def)
  then have "\<exists>e a2. loginTry eng fetch base ?a1 = (Threw e, a2)
     \<and> store a2 = store ?a1
     \<and> storeCalls (effects a2) = storeCalls (effects ?a1)
     \<and> navigations (effects a2) = navigations (effects ?a1)
     \<and> alerts (effects a2) = alerts (effects ?a1)
     \<and> requests (effects a2)
         = requests (effects ?a1) @ [tokenRequest base (formString eng (username ?a1) (password ?a1))]"
    by (rule loginTry_failed)
  then obtain x a2 where tr: "loginTry eng fetch base ?a1 = (Threw x, a2)"
    and same: "store a2 = store a" "storeCalls (effects a2) = storeCalls (effects a)"
      "navigations (effects a2) = navigations (effects a)"
      "alerts (effects a2) = alerts (effects a)"
    by auto
  have a': "a' = (loginCatch x a2)\<lparr>isLoading := False\<rparr>"
    using tr handleLogin_ready [OF ready] by (simp add: a'_def)
  have kept: "store a' = store a" "storeCalls (effects a') = storeCalls (effects a)"
    "navigations (effects a') = navigations (effects a)"
    "alerts (effects a') = alerts (effects a) @ [(''Login Failed'', alertMessage x)]"
    using same by (simp_all add: a' loginCatch_def emit_def Let_def storeCalls_append
        navigations_append alerts_append)
  have msg: "(\<forall>r data d. fetch req = Inr r \<and> json r = Inr data \<and> \<not> ok r
              \<and> getProp eng data ''detail'' = Inr (JStr d) \<and> d \<noteq> [] \<longrightarrow> alertMessage x = d)
        \<and> (\<forall>r data v. fetch req = Inr r \<and> json r = Inr data \<and> \<not> ok r
              \<and> getProp eng data ''detail'' = Inr v \<and> \<not> truthy eng v
              \<longrightarrow> alertMessage x = ''Login failed'')
        \<and> (\<forall>r data v. fetch req = Inr r \<and> json r = Inr data \<and> \<not> ok r
              \<and> getProp eng data ''detail'' = Inr v \<and> truthy eng v
              \<longrightarrow> alertMessage x = alertMessage (case toString eng v of Inl e \<Rightarrow> e | Inr m \<Rightarrow> JsError m))
        \<and> (\<forall>r data e. fetch req = Inr r \<and> json r = Inr data \<and> \<not> ok r
              \<and> getProp eng data ''detail'' = Inl e \<longrightarrow> alertMessage x = alertMessage e)
        \<and> (\<forall>r e. fetch req = Inr r \<and> json r = Inl e \<longrightarrow> alertMessage x = alertMessage e)
        \<and> (\<forall>e. fetch req = Inl e \<longrightarrow> alertMessage x = alertMessage e)"
    using loginTry_thrown [OF tr] by (fastforce simp: req_def)
  have "getProp eng JNull ''detail'' = Inl (nullRead eng ''detail'')"
    by simp
  with msg have null: "\<forall>r. fetch req = Inr r \<and> json r = Inr JNull \<and> \<not> ok r
              \<longrightarrow> alertMessage x = alertMessage (nullRead eng ''detail'')"
    by blast
  from kept msg null show ?thesis by blast
qed

text \<open>
  The 401 example of C3: the store stays \<open>{null, false}\<close> and the message is the detail
  string. With the body \<^verbatim>\<open>null\<close> instead, the message is that of the \<^verbatim>\<open>TypeError\<close>.
\<close>

theorem C3_failed_login_witness:
  "username readyApp \<noteq> [] \<and> password readyApp \<noteq> []
   \<and> truthyString (workingServerUrl readyApp) = Some ''http://host:8000''
   \<and> failedAttempt (rejectingServer (tokenRequest ''http://host:8000''
         (formString exampleEngine (username readyApp) (password readyApp))))
   \<and> store (handleLogin exampleEngine rejectingServer readyApp)
       = \<lparr>token = JNull, isAuthenticated = False\<rparr>
   \<and> alerts (effects (handleLogin exampleEngine rejectingServer readyApp))
       = [(''Login Failed'', ''Incorrect username or password'')]
   \<and> failedAttempt (nullRejectingServer (tokenRequest ''http://host:8000''
         (formString exampleEngine (username readyApp) (password readyApp))))
   \<and> store (handleLogin exampleEngine nullRejectingServer readyApp)
       = \<lparr>token = JNull, isAuthenticated = False\<rparr>
   \<and> alerts (effects (handleLogin exampleEngine nullRejectingServer readyApp))
       = [(''Login Failed'', alertMessage (nullRead exampleEngine ''detail''))]"
proof -
  let ?req = "tokenRequest ''http://host:8000''
         (formString exampleEngine (username readyApp) (password readyApp))"
  have h: "username readyApp \<noteq> []" "password readyApp \<noteq> []"
    "truthyString (workingServerUrl readyApp) = Some ''http://host:8000''"
    by (simp_all add: readyApp_def)
  have f: "failedAttempt (rejectingServer ?req)"
    by (simp add: failedAttempt_def rejectingServer_def ok_def)
  have r: "rejectingServer ?req = Inr \<lparr>status = 401,
          json = Inr (JObj [(''detail'', JStr ''Incorrect username or password'')])\<rparr>"
    by (simp add: rejectingServer_def)
  have d: "getProp exampleEngine (JObj [(''detail'', JStr ''Incorrect username or password'')])
      ''detail'' = Inr (JStr ''Incorrect username or password'')"
    by simp
  from C3_failed_login [where fetch = rejectingServer and eng = exampleEngine, OF h f]
  obtain msg where
    st: "store (handleLogin exampleEngine rejectingServer readyApp) = store readyApp"
    and al: "alerts (effects (handleLogin exampleEngine rejectingServer readyApp))
       = alerts (effects readyApp) @ [(''Login Failed'', msg)]"
    and m: "\<forall>r data d. rejectingServer ?req = Inr r \<and> json r = Inr data \<and> \<not> ok r
              \<and> getProp exampleEngine data ''detail'' = Inr (JStr d) \<and> d \<noteq> [] \<longrightarrow> msg = d"
    by (elim conjE exE) (rule that, assumption+)
  have msg: "msg = ''Incorrect username or password''"
    using m r d by (simp add: ok_def)
  let ?null = "\<lparr>status = 401, json = Inr JNull :: thrown + unit jsval\<rparr>"
  have fn: "failedAttempt (nullRejectingServer ?req)"
    by (simp add: failedAttempt_def nullRejectingServer_def ok_def)
  have rn: "nullRejectingServer ?req = Inr ?null" "json ?null = Inr JNull" "\<not> ok ?null"
    by (simp_all add: nullRejectingServer_def ok_def)
  from C3_failed_login [where fetch = nullRejectingServer and eng = exampleEngine, OF h fn]
  obtain msgn where
    stn: "store (handleLogin exampleEngine nullRejectingServer readyApp) = store readyApp"
    and aln: "alerts (effects (handleLogin exampleEngine nullRejectingServer readyApp))
       = alerts (effects readyApp) @ [(''Login Failed'', msgn)]"
    and mn: "\<forall>r. nullRejectingServer ?req = Inr r \<and> json r = Inr JNull \<and> \<not> ok r
              \<longrightarrow> msgn = alertMessage (nullRead exampleEngine ''detail'')"
    by (elim conjE exE) (rule that, assumption+)
  have msgn: "msgn = alertMessage (nullRead exampleEngine ''detail'')"
    using mn rn by blast
  have base: "store (readyApp :: unit app) = \<lparr>token = JNull, isAuthenticated = False\<rparr>"
    "alerts (effects (readyApp :: unit app)) = []"
    by (simp_all add: readyApp_def useAuthStore_def)
  from st al msg stn aln msgn base h f fn show ?thesis
    by simp
qed

text \<open>
  C4, as stated, fails on "each of the three ... a distinct rejection": an empty
  username and an empty password are tested together (\<^verbatim>\<open>!username || !password\<close>) and
  give the same alert.
\<close>

theorem C4_username_and_password_share_one_rejection:
  "effects (handleLogin exampleEngine rejectingServer (readyApp\<lparr>username := []\<rparr>))
     = [Alert ''Error'' ''Please enter both username and password'']
   \<and> effects (handleLogin exampleEngine rejectingServer (readyApp\<lparr>password := []\<rparr>))
     = [Alert ''Error'' ''Please enter both username and password'']
   \<and> effects (handleLogin exampleEngine rejectingServer (readyApp\<lparr>username := []\<rparr>))
     = effects (handleLogin exampleEngine rejectingServer (readyApp\<lparr>password := []\<rparr>))"
  by (simp add: handleLogin_def emit_def readyApp_def)

text \<open>
  C4, amended: when the username is empty, or the password is empty, or no endpoint is
  resolved, \<^verbatim>\<open>handleLogin\<close> sends no request, leaves the store as it was and calls none
  of its mutators; it is not a silent no-op, it shows one alert and does nothing else.
  There are two rejections, not three: "Please enter both username and password" when
  the username or the password is empty, and "Server Connection Error" when both are
  given and the endpoint is absent.
\<close>

theorem C4_rejected_before_any_request:
  assumes "username a = [] \<or> password a = [] \<or> truthyString (workingServerUrl a) = None"
  shows "requests (effects (handleLogin eng fetch a)) = requests (effects a)
    \<and> store (handleLogin eng fetch a) = store a
    \<and> storeCalls (effects (handleLogin eng fetch a)) = storeCalls (effects a)
    \<and> (username a = [] \<or> password a = [] \<longrightarrow>
          handleLogin eng fetch a
            = a\<lparr>effects := effects a @
                [Alert ''Error'' ''Please enter both username and password'']\<rparr>)
    \<and> (username a \<noteq> [] \<and> password a \<noteq> [] \<longrightarrow>
          handleLogin eng fetch a
            = a\<lparr>effects := effects a @ [Alert ''Server Connection Error''
                ''Cannot connect to the server. Please check your network connection and try again.'']\<rparr>)
    \<and> alerts (effects (handleLogin eng fetch a)) \<noteq> alerts (effects a)"
  using assms
  by (auto simp: handleLogin_def emit_def requests_append storeCalls_append alerts_append)

theorem C4_rejected_witness:
  "truthyString (workingServerUrl (readyApp\<lparr>workingServerUrl := None\<rparr>)) = None
   \<and> handleLogin exampleEngine tokenlessServer (readyApp\<lparr>workingServerUrl := None\<rparr>)
       = readyApp\<lparr>workingServerUrl := None, effects := [Alert ''Server Connection Error''
           ''Cannot connect to the server. Please check your network connection and try again.'']\<rparr>
   \<and> username (readyApp\<lparr>password := []\<rparr>) \<noteq> []
   \<and> password (readyApp\<lparr>password := []\<rparr>) = []
   \<and> handleLogin exampleEngine tokenlessServer (readyApp\<lparr>password := []\<rparr>)
       = readyApp\<lparr>password := [],
           effects := [Alert ''Error'' ''Please enter both username and password'']\<rparr>
   \<and> requests (effects (handleLogin exampleEngine tokenlessServer (readyApp\<lparr>password := []\<rparr>)))
       = []"
  using
    C4_rejected_before_any_request [of "readyApp\<lparr>workingServerUrl := None\<rparr>"
      exampleEngine tokenlessServer]
    C4_rejected_before_any_request [of "readyApp\<lparr>password := []\<rparr>"
      exampleEngine tokenlessServer]
  by (simp add: readyApp_def)

text \<open>The form encoder leaves a value of letters, digits and \<^verbatim>\<open>* - . _\<close> as it is.\<close>

lemma formUrlEncode_unreserved: "list_all unreserved s \<Longrightarrow> formUrlEncode s = s"
  by (induction s) (simp_all add: formUrlEncode_def encodeByte_def)

text \<open>
  C9: with non-empty credentials and a resolved endpoint, the first three things
  \<^verbatim>\<open>handleLogin\<close> does are: log the URL, log the encoded form body, send the request.
  The string logged is the body of the request: \<open>username=\<close> and the encoded username,
  \<open>&password=\<close> and the encoded password. No other request follows. Under the form
  encoder, credentials made of letters, digits and \<^verbatim>\<open>* - . _\<close> are in the log line as
  typed.
\<close>

theorem C9_form_body_logged_before_request:
  assumes "username a \<noteq> []" "password a \<noteq> []"
    "truthyString (workingServerUrl a) = Some base"
  shows "\<exists>post.
      effects (handleLogin eng fetch a)
        = effects a
          @ [ConsoleLog [LStr (''Attempting to login at: '' @ base @ ''/token'')],
             ConsoleLog [LStr ''Form data being sent:'',
                         LStr (formString eng (username a) (password a))],
             Fetch (tokenRequest base (formString eng (username a) (password a)))]
          @ post
    \<and> requests post = []
    \<and> body (tokenRequest base (formString eng (username a) (password a)))
        = Some (formString eng (username a) (password a))
    \<and> formString eng (username a) (password a)
        = ''username='' @ encodeComponent eng (username a)
          @ ''&password='' @ encodeComponent eng (password a)
    \<and> (encodeComponent eng = formUrlEncode
          \<and> list_all unreserved (username a) \<and> list_all unreserved (password a)
        \<longrightarrow> formString eng (username a) (password a)
              = ''username='' @ username a @ ''&password='' @ password a)"
proof -
  let ?a1 = "a\<lparr>isLoading := True\<rparr>"
  let ?form = "formString eng (username a) (password a)"
  let ?pre = "[ConsoleLog [LStr (''Attempting to login at: '' @ base @ ''/token'')],
             ConsoleLog [LStr ''Form data being sent:'', LStr ?form],
             Fetch (tokenRequest base ?form)]"
  have tr: "\<exists>post. effects (snd (loginTry eng fetch base ?a1)) = effects a @ ?pre @ post
      \<and> requests post = []"
    by (auto simp: loginTry_def emit_def Let_def split: sum.splits)
  then obtain post where post:
    "effects (snd (loginTry eng fetch base ?a1)) = effects a @ ?pre @ post" "requests post = []"
    by blast
  obtain c a2 where ca: "loginTry eng fetch base ?a1 = (c, a2)"
    by (cases "loginTry eng fetch base ?a1")
  have h: "handleLogin eng fetch a
      = (case c of Threw error \<Rightarrow> loginCatch error a2 | _ \<Rightarrow> a2)\<lparr>isLoading := False\<rparr>"
    using handleLogin_ready [OF assms, of eng fetch] ca by (simp split: completion.splits)
  have "\<exists>more. effects (handleLogin eng fetch a) = effects a2 @ more \<and> requests more = []"
    by (cases c) (simp_all add: h loginCatch_def emit_def Let_def)
  then obtain more where
    "effects (handleLogin eng fetch a) = effects a2 @ more" "requests more = []"
    by blast
  then have "effects (handleLogin eng fetch a) = effects a @ ?pre @ (post @ more)"
    "requests (post @ more) = []"
    using post ca by (simp_all add: requests_append)
  then have "\<exists>p. effects (handleLogin eng fetch a) = effects a @ ?pre @ p \<and> requests p = []"
    by blast
  moreover have "body (tokenRequest base ?form) = Some ?form"
    by (simp add: tokenRequest_def)
  moreover have "?form = ''username='' @ encodeComponent eng (username a)
          @ ''&password='' @ encodeComponent eng (password a)"
    by (simp add: formString_def)
  moreover have "encodeComponent eng = formUrlEncode
          \<and> list_all unreserved (username a) \<and> list_all unreserved (password a)
        \<longrightarrow> ?form = ''username='' @ username a @ ''&password='' @ password a"
    by (simp add: formString_def formUrlEncode_unreserved)
  ultimately show ?thesis
    by blast
qed

theorem C9_form_body_logged_witness:
  "username readyApp \<noteq> [] \<and> password readyApp \<noteq> []
   \<and> truthyString (workingServerUrl readyApp) = Some ''http://host:8000''
   \<and> formString exampleEngine (username readyApp) (password readyApp)
       = ''username=johndoe&password=password123''
   \<and> take 3 (effects (handleLogin exampleEngine rejectingServer readyApp))
       = [ConsoleLog [LStr ''Attempting to login at: http://host:8000/token''],
          ConsoleLog [LStr ''Form data being sent:'',
                      LStr ''username=johndoe&password=password123''],
          Fetch (tokenRequest ''http://host:8000'' ''username=johndoe&password=password123'')]"
proof -
  have h: "username readyApp \<noteq> []" "password readyApp \<noteq> []"
    "truthyString (workingServerUrl readyApp) = Some ''http://host:8000''"
    by (simp_all add: readyApp_def)
  have enc: "encodeComponent exampleEngine = formUrlEncode"
    "list_all unreserved (username readyApp)" "list_all unreserved (password readyApp)"
    by (simp_all add: exampleEngine_def readyApp_def unreserved_def)
  from C9_form_body_logged_before_request [OF h, of exampleEngine rejectingServer]
  obtain post where
    eff: "effects (handleLogin exampleEngine rejectingServer readyApp)
        = effects readyApp
          @ [ConsoleLog [LStr (''Attempting to login at: '' @ ''http://host:8000'' @ ''/token'')],
             ConsoleLog [LStr ''Form data being sent:'',
                         LStr (formString exampleEngine (username readyApp) (password readyApp))],
             Fetch (tokenRequest ''http://host:8000''
                      (formString exampleEngine (username readyApp) (password readyApp)))]
          @ post"
    and clear: "encodeComponent exampleEngine = formUrlEncode
          \<and> list_all unreserved (username readyApp) \<and> list_all unreserved (password readyApp)
        \<longrightarrow> formString exampleEngine (username readyApp) (password readyApp)
              = ''username='' @ username readyApp @ ''&password='' @ password readyApp"
    by (elim conjE exE) (rule that, assumption+)
  from clear enc
  have form: "formString exampleEngine (username readyApp) (password readyApp)
       = ''username=johndoe&password=password123''"
    by (simp add: readyApp_def)
  have "effects (readyApp :: unit app) = []"
    by (simp add: readyApp_def)
  with eff form h show ?thesis
    by simp
qed

text \<open>
  Reading a field that a decoded body lacks gives \<^verbatim>\<open>undefined\<close>, unless the body is
  \<^verbatim>\<open>null\<close>. (\<^verbatim>\<open>response.json()\<close> never gives \<^verbatim>\<open>undefined\<close> itself.)
\<close>

lemma getProp_lacksField:
  assumes "lacksField data name" "data \<noteq> JNull" "data \<noteq> JUndefined"
  shows "getProp eng data name = Inr JUndefined"
proof (cases data)
  case (JObj kvs)
  with assms(1) have "map_of (rev kvs) name = None"
    by (simp add: map_of_eq_None_iff)
  with JObj show ?thesis by simp
qed (use assms in simp_all)

text \<open>
  C10, as stated, fails on the body \<^verbatim>\<open>null\<close>: it is a JSON body, it has no
  \<^verbatim>\<open>access_token\<close> field, and a server can send it with status 200. Reading
  \<^verbatim>\<open>data.access_token\<close> off it throws, so \<^verbatim>\<open>handleLogin\<close> does surface an error: the
  "Login Failed" alert is shown, \<^verbatim>\<open>login\<close> is not called, the store stays
  \<open>{null, false}\<close> and nothing navigates.
\<close>

theorem C10_null_body_shows_alert:
  "nullServer (tokenRequest ''http://host:8000''
       (formString exampleEngine (username readyApp) (password readyApp)))
     = Inr \<lparr>status = 200, json = Inr JNull\<rparr>
   \<and> ok \<lparr>status = 200, json = Inr JNull :: thrown + unit jsval\<rparr>
   \<and> lacksField (JNull :: unit jsval) ''access_token''
   \<and> alerts (effects (handleLogin exampleEngine nullServer readyApp))
       = [(''Login Failed'', alertMessage (nullRead exampleEngine ''access_token''))]
   \<and> alerts (effects (handleLogin exampleEngine nullServer readyApp)) \<noteq> []
   \<and> store (handleLogin exampleEngine nullServer readyApp)
       = \<lparr>token = JNull, isAuthenticated = False\<rparr>
   \<and> \<not> isAuthenticated (store (handleLogin exampleEngine nullServer readyApp))
   \<and> storeCalls (effects (handleLogin exampleEngine nullServer readyApp)) = []
   \<and> navigations (effects (handleLogin exampleEngine nullServer readyApp)) = []"
  by (simp add: run_defs nullServer_def)

text \<open>
  C10, amended: with non-empty credentials and a resolved endpoint, when the response
  has a success status and its decoded body lacks an \<^verbatim>\<open>access_token\<close> field,
  \<^item> if the body is not \<^verbatim>\<open>null\<close> (an object without that key; a string, a number, a
    boolean or an array), \<^verbatim>\<open>handleLogin\<close> shows no alert and logs no error: it calls
    the store's \<^verbatim>\<open>login\<close> with \<^verbatim>\<open>undefined\<close>, which leaves \<open>isAuthenticated\<close> true with
    a token that is no string, and then navigates to the overview screen;
  \<^item> if the body is \<^verbatim>\<open>null\<close>, reading the field throws: \<^verbatim>\<open>handleLogin\<close> shows the
    "Login Failed" alert with the message of that \<^verbatim>\<open>TypeError\<close>, leaves the store as
    it was, does not call \<^verbatim>\<open>login\<close> and does not navigate.
\<close>

theorem C10_success_without_token:
  fixes eng :: "'n engine" and fetch :: "'n fetch" and a :: "'n app" and base :: string
  defines "form \<equiv> formString eng (username a) (password a)"
  defines "a' \<equiv> handleLogin eng fetch a"
  assumes ready: "username a \<noteq> []" "password a \<noteq> []"
      "truthyString (workingServerUrl a) = Some base"
    and resp: "fetch (tokenRequest base form) = Inr r" "ok r" "json r = Inr data"
    and decoded: "data \<noteq> JUndefined"
    and lacks: "lacksField data ''access_token''"
  shows "(data \<noteq> JNull \<longrightarrow>
        store a' = \<lparr>token = JUndefined, isAuthenticated = True\<rparr>
      \<and> \<not> token_nonempty (token (store a'))
      \<and> \<not> truthy eng (token (store a'))
      \<and> alerts (effects a') = alerts (effects a)
      \<and> effects a'
          = effects a
            @ [ConsoleLog [LStr (''Attempting to login at: '' @ base @ ''/token'')],
               ConsoleLog [LStr ''Form data being sent:'', LStr form],
               Fetch (tokenRequest base form),
               ConsoleLog [LStr ''Response status:'', LNum (status r)],
               ConsoleLog [LStr ''Response data:'', LVal data],
               ConsoleLog [LStr ''Login successful:'', LVal data],
               StoreLogin JUndefined,
               Navigate ''Overview''])
    \<and> (data = JNull \<longrightarrow>
        store a' = store a
      \<and> storeCalls (effects a') = storeCalls (effects a)
      \<and> navigations (effects a') = navigations (effects a)
      \<and> alerts (effects a')
          = alerts (effects a)
            @ [(''Login Failed'', alertMessage (nullRead eng ''access_token''))])"
proof (cases "data = JNull")
  case False
  let ?a1 = "a\<lparr>isLoading := True\<rparr>"
  let ?done = "[ConsoleLog [LStr (''Attempting to login at: '' @ base @ ''/token'')],
               ConsoleLog [LStr ''Form data being sent:'', LStr form],
               Fetch (tokenRequest base form),
               ConsoleLog [LStr ''Response status:'', LNum (status r)],
               ConsoleLog [LStr ''Response data:'', LVal data],
               ConsoleLog [LStr ''Login successful:'', LVal data],
               StoreLogin JUndefined,
               Navigate ''Overview'']"
  have undef: "getProp eng data ''access_token'' = Inr JUndefined"
    using lacks False decoded by (rule getProp_lacksField)
  have "\<exists>a2. loginTry eng fetch base ?a1 = (Normal, a2)
     \<and> store a2 = login JUndefined (store a)
     \<and> effects a2 = effects a @ ?done"
    using resp undef by (simp add: loginTry_def emit_def Let_def form_def)
  then obtain a2 where a2: "loginTry eng fetch base ?a1 = (Normal, a2)"
    "store a2 = login JUndefined (store a)" "effects a2 = effects a @ ?done"
    by blast
  have "a' = a2\<lparr>isLoading := False\<rparr>"
    using handleLogin_ready [OF ready, of eng fetch] a2(1) by (simp add: a'_def)
  with a2(2,3) False show ?thesis
    by (simp add: login_def alerts_append)
next
  case True
  let ?a1 = "a\<lparr>isLoading := True\<rparr>"
  have "\<exists>a2. loginTry eng fetch base ?a1 = (Threw (nullRead eng ''access_token''), a2)
     \<and> store a2 = store a
     \<and> storeCalls (effects a2) = storeCalls (effects a)
     \<and> navigations (effects a2) = navigations (effects a)
     \<and> alerts (effects a2) = alerts (effects a)"
    using resp True
    by (simp add: loginTry_def emit_def Let_def form_def storeCalls_append
        navigations_append alerts_append)
  then obtain a2 where a2:
    "loginTry eng fetch base ?a1 = (Threw (nullRead eng ''access_token''), a2)"
    "store a2 = store a" "storeCalls (effects a2) = storeCalls (effects a)"
    "navigations (effects a2) = navigations (effects a)"
    "alerts (effects a2) = alerts (effects a)"
    by blast
  have "a' = (loginCatch (nullRead eng ''access_token'') a2)\<lparr>isLoading := False\<rparr>"
    using handleLogin_ready [OF ready, of eng fetch] a2(1) by (simp add: a'_def)
  with a2(2-5) True show ?thesis
    by (simp add: loginCatch_def emit_def Let_def storeCalls_append navigations_append
        alerts_append)
qed

theorem C10_success_without_token_witness:
  "username readyApp \<noteq> [] \<and> password readyApp \<noteq> []
   \<and> truthyString (workingServerUrl readyApp) = Some ''http://host:8000''
   \<and> ok \<lparr>status = 200, json = Inr (JObj [(''token_type'', JStr ''bearer'')]) :: thrown + unit jsval\<rparr>
   \<and> lacksField (JObj [(''token_type'', JStr ''bearer'')] :: unit jsval) ''access_token''
   \<and> store (handleLogin exampleEngine tokenlessServer readyApp)
       = \<lparr>token = JUndefined, isAuthenticated = True\<rparr>
   \<and> alerts (effects (handleLogin exampleEngine tokenlessServer readyApp)) = []
   \<and> navigations (effects (handleLogin exampleEngine tokenlessServer readyApp)) = [''Overview'']
   \<and> ok \<lparr>status = 200, json = Inr JNull :: thrown + unit jsval\<rparr>
   \<and> store (handleLogin exampleEngine tokenlessServer
         (readyApp\<lparr>store := login (JStr ''old'') useAuthStore\<rparr>))
       = \<lparr>token = JUndefined, isAuthenticated = True\<rparr>
   \<and> store (handleLogin exampleEngine nullServer
         (readyApp\<lparr>store := login (JStr ''old'') useAuthStore\<rparr>))
       = \<lparr>token = JStr ''old'', isAuthenticated = True\<rparr>
   \<and> alerts (effects (handleLogin exampleEngine nullServer readyApp))
       = [(''Login Failed'', alertMessage (nullRead exampleEngine ''access_token''))]"
proof -
  let ?obj = "JObj [(''token_type'', JStr ''bearer'')] :: unit jsval"
  let ?r = "\<lparr>status = 200, json = Inr ?obj\<rparr>"
  let ?n = "\<lparr>status = 200, json = Inr JNull :: thrown + unit jsval\<rparr>"
  let ?old = "readyApp\<lparr>store := login (JStr ''old'') useAuthStore\<rparr>"
  have h: "username readyApp \<noteq> []" "password readyApp \<noteq> []"
    "truthyString (workingServerUrl readyApp) = Some ''http://host:8000''"
    by (simp_all add: readyApp_def)
  have ho: "username ?old \<noteq> []" "password ?old \<noteq> []"
    "truthyString (workingServerUrl ?old) = Some ''http://host:8000''"
    by (simp_all add: readyApp_def)
  have r: "tokenlessServer (tokenRequest ''http://host:8000''
        (formString exampleEngine (username readyApp) (password readyApp))) = Inr ?r"
    "ok ?r" "json ?r = Inr ?obj"
    by (simp_all add: tokenlessServer_def ok_def)
  have ro: "tokenlessServer (tokenRequest ''http://host:8000''
        (formString exampleEngine (username ?old) (password ?old))) = Inr ?r"
    by (simp add: tokenlessServer_def)
  have n: "nullServer (tokenRequest ''http://host:8000''
        (formString exampleEngine (username readyApp) (password readyApp))) = Inr ?n"
    "ok ?n" "json ?n = Inr JNull"
    by (simp_all add: nullServer_def ok_def)
  have no: "nullServer (tokenRequest ''http://host:8000''
        (formString exampleEngine (username ?old) (password ?old))) = Inr ?n"
    by (simp add: nullServer_def)
  have l: "lacksField ?obj ''access_token''" "?obj \<noteq> JUndefined"
    "lacksField (JNull :: unit jsval) ''access_token''" "(JNull :: unit jsval) \<noteq> JUndefined"
    by simp_all
  have e: "effects (readyApp :: unit app) = []" "store ?old = login (JStr ''old'') useAuthStore"
    by (simp_all add: readyApp_def)
  note t1 = C10_success_without_token [where fetch = tokenlessServer and eng = exampleEngine,
      OF h r l(2) l(1)]
  note t2 = C10_success_without_token [where fetch = tokenlessServer and eng = exampleEngine,
      OF ho ro r(2,3) l(2) l(1)]
  note t3 = C10_success_without_token [where fetch = nullServer and eng = exampleEngine,
      OF ho no n(2,3) l(4) l(3)]
  note t4 = C10_success_without_token [where fetch = nullServer and eng = exampleEngine,
      OF h n l(4) l(3)]
  from t1 t2 t3 t4 h r(2) n(2) l(1) e show ?thesis
    by (simp add: login_def useAuthStore_def)
qed

end
